theory Spec2Isabelle
  imports Complex_Main "HOL-Library.Word"
begin

section \<open>The DataExtractor component: submission and job polling\<close>

text \<open>
  The component of \<^verbatim>\<open>DataExtractor.tsx\<close> (the version with job polling) posts a URL
  and a prompt to one webhook, polls the same webhook for the status of the job when the
  answer names one, and shows the final data as pretty-printed JSON. The model keeps the
  React state of the component in a record, threads it through every function together
  with the logs of the effects (requests sent, toasts shown, timers awaited), and turns
  every \<^verbatim>\<open>throw\<close> into a value.
\<close>

subsection \<open>Values\<close>

text \<open>
  The payload of a response is what \<^verbatim>\<open>response.json()\<close> delivers: any JSON value.
  A string of the payload is a sequence of UTF-16 code units. A number is a double: a
  real number, or one of the two infinities that a literal out of range is read as. The
  two zeros are one value here; the code treats them alike.
\<close>

type_synonym js_string = "16 word list"

datatype number = Finite real | PlusInfinity | MinusInfinity

datatype json =
    JNull
  | JBool bool
  | JNum number
  | JStr js_string
  | JArr "json list"
  | JObj "(js_string \<times> json) list"

text \<open>
  \<^verbatim>\<open>interface ExtractResponse\<close>. An optional field that is absent is \<open>None\<close>. The
  status is kept as a string: the union type of the interface is not checked when the
  body is parsed, and the loop compares it with string literals. The parsed body is an
  object that may carry more than the interface names; whatever else it carries (further
  properties, the order of its keys) lives in the extension slot of the record, so every
  function below takes a response of type \<open>'x ExtractResponse_scheme\<close>.
\<close>

record ExtractResponse =
  success :: bool
  data :: "json option"
  status :: string
  expiresAt :: "string option"
  extract_id :: "string option"

text \<open>
  The type \<^verbatim>\<open>any\<close> of \<^verbatim>\<open>extractedData\<close>: it holds \<^verbatim>\<open>null\<close> at first
  (\<open>Data JNull\<close>), the \<^verbatim>\<open>data\<close> of a response (\<^verbatim>\<open>undefined\<close> when the field is
  absent) or, in the fallback branch, a whole response object.
\<close>

datatype 'x any = Undefined | Data json | Whole "'x ExtractResponse_scheme"

fun field_any :: "json option \<Rightarrow> 'x any" where
  "field_any None = Undefined"
| "field_any (Some j) = Data j"

text \<open>JavaScript truthiness, as used by \<^verbatim>\<open>||\<close>, \<^verbatim>\<open>&&\<close> and \<^verbatim>\<open>!\<close>.\<close>

fun truthy_json :: "json \<Rightarrow> bool" where
  "truthy_json JNull = False"
| "truthy_json (JBool b) = b"
| "truthy_json (JNum n) = (n \<noteq> Finite 0)"
| "truthy_json (JStr s) = (s \<noteq> [])"
| "truthy_json (JArr xs) = True"
| "truthy_json (JObj kvs) = True"

fun truthy :: "'x any \<Rightarrow> bool" where
  "truthy Undefined = False"
| "truthy (Data j) = truthy_json j"
| "truthy (Whole r) = True"

text \<open>A thrown value; every \<^verbatim>\<open>throw\<close> of the component throws an \<^verbatim>\<open>Error\<close>.\<close>

datatype thrown = Error string | NotAnError

subsection \<open>Effects: the network, toasts and timers\<close>

datatype request_body =
    ExtractBody "string list" string
  | StatusBody string string

datatype request = POST string request_body

text \<open>
  What one \<^verbatim>\<open>fetch\<close> does: it rejects, or it resolves with an HTTP status code and a
  body on which \<^verbatim>\<open>response.json()\<close> either rejects or yields a response object.
\<close>

datatype 'x fetch_outcome =
    Rejected thrown
  | Responded nat "thrown + 'x ExtractResponse_scheme"

text \<open>\<^verbatim>\<open>response.ok\<close>: the status code is in the range 200 to 299.\<close>

definition ok :: "nat \<Rightarrow> bool" where
  "ok code = (200 \<le> code \<and> code \<le> 299)"

text \<open>
  The webhook is a parameter of every function that reaches the network: the outcome of
  the \<open>k\<close>-th request since the log was empty.
\<close>

type_synonym 'x network = "nat \<Rightarrow> 'x fetch_outcome"

datatype variant = Default | Destructive

record toast_msg =
  title :: string
  description :: string
  variant :: variant

record 'x component =
  url :: string
  prompt :: string
  isLoading :: bool
  extractedData :: "'x any"
  error :: string
  copied :: bool
  jobStatus :: string
  requests :: "request list"
  toasts :: "toast_msg list"
  timeouts :: "nat list"

definition webhookUrl :: string where
  "webhookUrl = ''http://localhost:5678/webhook-test/1e77976c-81bd-4cd2-97cf-215e9bfc898a''"

definition fetch :: "'x network \<Rightarrow> string \<Rightarrow> request_body \<Rightarrow> 'x component \<Rightarrow> 'x fetch_outcome \<times> 'x component" where
  "fetch net target b s = (net (length (requests s)), s\<lparr>requests := requests s @ [POST target b]\<rparr>)"

definition toast :: "toast_msg \<Rightarrow> 'x component \<Rightarrow> 'x component" where
  "toast t s = s\<lparr>toasts := toasts s @ [t]\<rparr>"

definition setTimeout :: "nat \<Rightarrow> 'x component \<Rightarrow> 'x component" where
  "setTimeout ms s = s\<lparr>timeouts := timeouts s @ [ms]\<rparr>"

text \<open>The decimal digits of a number, for the template literal of the HTTP error.\<close>

definition digit_char :: "nat \<Rightarrow> char" where
  "digit_char d = char_of (48 + d)"

function show_nat :: "nat \<Rightarrow> string" where
  "show_nat n = (if n < 10 then [digit_char n] else show_nat (n div 10) @ [digit_char (n mod 10)])"
  by pat_completeness auto
termination
  by (relation "measure id") auto

declare show_nat.simps [simp del]

subsection \<open>pollJobStatus\<close>

definition http_error :: "nat \<Rightarrow> thrown" where
  "http_error code = Error (''HTTP error! status: '' @ show_nat code)"

definition pollJobStatus :: "'x network \<Rightarrow> string \<Rightarrow> 'x component \<Rightarrow> (thrown + 'x ExtractResponse_scheme) \<times> 'x component" where
  "pollJobStatus net extractId s =
     (case fetch net webhookUrl (StatusBody ''status_check'' extractId) s of
        (Rejected e, s1) \<Rightarrow> (Inl e, s1)
      | (Responded code body, s1) \<Rightarrow>
          if \<not> ok code then (Inl (http_error code), s1)
          else (body, s1))"

subsection \<open>waitForCompletion\<close>

text \<open>
  One pass through the body of \<^verbatim>\<open>while (true)\<close>. \<open>Some\<close> is a \<^verbatim>\<open>return\<close>
  (\<open>Inr\<close>) or a \<^verbatim>\<open>throw\<close> (\<open>Inl\<close>) that leaves the loop; \<open>None\<close> is the end of the
  body, after the timer of 2000 ms, from where the loop goes round again. The
  \<^verbatim>\<open>catch\<close> of the body logs and rethrows, so it changes nothing.
\<close>

definition poll_body :: "'x network \<Rightarrow> string \<Rightarrow> 'x component \<Rightarrow> (thrown + 'x any) option \<times> 'x component" where
  "poll_body net extractId s =
     (case pollJobStatus net extractId s of
        (Inl e, s1) \<Rightarrow> (Some (Inl e), s1)
      | (Inr statusResponse, s1) \<Rightarrow>
          let s2 = s1\<lparr>jobStatus := status statusResponse\<rparr> in
          if status statusResponse = ''completed'' then
            (Some (Inr (field_any (data statusResponse))), s2)
          else if status statusResponse = ''failed'' then
            (Some (Inl (Error ''Extraction job failed'')), s2)
          else if status statusResponse = ''cancelled'' then
            (Some (Inl (Error ''Extraction job was cancelled'')), s2)
          else (None, setTimeout 2000 s2))"

text \<open>The loop itself may run forever: not returning is the value \<open>None\<close>.\<close>

partial_function (option) waitForCompletion ::
  "'x network \<Rightarrow> string \<Rightarrow> 'x component \<Rightarrow> ((thrown + 'x any) \<times> 'x component) option" where
  "waitForCompletion net extractId s =
     (case poll_body net extractId s of
        (Some r, s1) \<Rightarrow> Some (r, s1)
      | (None, s1) \<Rightarrow> waitForCompletion net extractId s1)"

text \<open>The first \<open>n\<close> passes of the same loop, for speaking about a run that never ends.\<close>

fun poll_passes :: "nat \<Rightarrow> 'x network \<Rightarrow> string \<Rightarrow> 'x component \<Rightarrow> (thrown + 'x any) option \<times> 'x component" where
  "poll_passes 0 net extractId s = (None, s)"
| "poll_passes (Suc n) net extractId s =
     (case poll_body net extractId s of
        (Some r, s1) \<Rightarrow> (Some r, s1)
      | (None, s1) \<Rightarrow> poll_passes n net extractId s1)"

subsection \<open>handleExtract\<close>

definition missing_information :: toast_msg where
  "missing_information =
     \<lparr>title = ''Missing Information'',
      description = ''Please provide both a URL and extraction prompt'',
      variant = Destructive\<rparr>"

definition invalid_url :: toast_msg where
  "invalid_url =
     \<lparr>title = ''Invalid URL'',
      description = ''Please enter a valid website URL'',
      variant = Destructive\<rparr>"

definition extraction_complete :: toast_msg where
  "extraction_complete =
     \<lparr>title = ''Extraction Complete'',
      description = ''Data has been successfully extracted from the website'',
      variant = Default\<rparr>"

definition extraction_failed :: "string \<Rightarrow> toast_msg" where
  "extraction_failed errorMessage =
     \<lparr>title = ''Extraction Failed'', description = errorMessage, variant = Destructive\<rparr>"

text \<open>The operator \<^verbatim>\<open>||\<close>: the left operand when it is truthy, else the right one.\<close>

definition js_or :: "'x any \<Rightarrow> 'x any \<Rightarrow> 'x any" where
  "js_or a b = (if truthy a then a else b)"

text \<open>
  The last branch of the \<^verbatim>\<open>try\<close> block, taken when \<^verbatim>\<open>initialResponse.extract_id\<close>
  is falsy (absent or the empty string): \<^verbatim>\<open>initialResponse.data || initialResponse\<close>
  becomes the result.
\<close>

definition fallback :: "'x ExtractResponse_scheme \<Rightarrow> 'x component \<Rightarrow> 'x component" where
  "fallback initialResponse s =
     toast extraction_complete
       (s\<lparr>extractedData := js_or (field_any (data initialResponse)) (Whole initialResponse)\<rparr>)"

text \<open>
  The \<^verbatim>\<open>try\<close> block. \<open>Inl e\<close> is an exception on its way to the \<^verbatim>\<open>catch\<close>,
  \<open>Inr ()\<close> the normal end of the block (by \<^verbatim>\<open>return\<close> or by falling out of it).
\<close>

definition extract_try :: "'x network \<Rightarrow> 'x component \<Rightarrow> ((thrown + unit) \<times> 'x component) option" where
  "extract_try net s =
     (case fetch net webhookUrl (ExtractBody [url s] (prompt s)) s of
        (Rejected e, s1) \<Rightarrow> Some (Inl e, s1)
      | (Responded code body, s1) \<Rightarrow>
          if \<not> ok code then Some (Inl (http_error code), s1)
          else (case body of
            Inl e \<Rightarrow> Some (Inl e, s1)
          | Inr initialResponse \<Rightarrow>
              if \<not> success initialResponse then
                Some (Inl (Error ''Failed to start extraction job''), s1)
              else if status initialResponse = ''completed'' then
                Some (Inr (), toast extraction_complete
                  (s1\<lparr>extractedData := field_any (data initialResponse)\<rparr>))
              else (case extract_id initialResponse of
                Some extractId \<Rightarrow>
                  if extractId \<noteq> [] then
                    (case waitForCompletion net extractId s1 of
                       None \<Rightarrow> None
                     | Some (Inl e, s2) \<Rightarrow> Some (Inl e, s2)
                     | Some (Inr finalData, s2) \<Rightarrow>
                         Some (Inr (), toast extraction_complete (s2\<lparr>extractedData := finalData\<rparr>)))
                  else Some (Inr (), fallback initialResponse s1)
              | None \<Rightarrow> Some (Inr (), fallback initialResponse s1))))"

text \<open>
  The message of the \<^verbatim>\<open>catch\<close> block:
  \<^verbatim>\<open>error instanceof Error ? error.message : 'Unknown error occurred'\<close>.
\<close>

definition errorMessage :: "thrown \<Rightarrow> string" where
  "errorMessage e = (case e of Error message \<Rightarrow> message | NotAnError \<Rightarrow> ''Unknown error occurred'')"

definition extract_catch :: "thrown \<Rightarrow> 'x component \<Rightarrow> 'x component" where
  "extract_catch e s =
     toast (extraction_failed (errorMessage e))
       (s\<lparr>error := ''Failed to extract data: '' @ errorMessage e\<rparr>)"

definition extract_finally :: "'x component \<Rightarrow> 'x component" where
  "extract_finally s = s\<lparr>isLoading := False, jobStatus := []\<rparr>"

text \<open>
  \<^verbatim>\<open>new URL(url)\<close> belongs to the platform: whether it accepts a string is the
  parameter \<open>parses\<close>.
\<close>

definition handleExtract :: "'x network \<Rightarrow> (string \<Rightarrow> bool) \<Rightarrow> 'x component \<Rightarrow> 'x component option" where
  "handleExtract net parses s =
     (if url s = [] \<or> prompt s = [] then Some (toast missing_information s)
      else if \<not> parses (url s) then Some (toast invalid_url s)
      else
        let s0 = s\<lparr>isLoading := True, error := [], extractedData := Data JNull, jobStatus := []\<rparr> in
        (case extract_try net s0 of
           None \<Rightarrow> None
         | Some (Inl e, s1) \<Rightarrow> Some (extract_finally (extract_catch e s1))
         | Some (Inr u, s1) \<Rightarrow> Some (extract_finally s1)))"

subsection \<open>The results card\<close>

text \<open>Text on the page, with the ASCII characters of a literal as code units.\<close>

definition ascii :: "string \<Rightarrow> js_string" where
  "ascii cs = map (\<lambda>c. of_nat (of_char c)) cs"




subsection \<open>Vocabulary of the properties\<close>

text \<open>The request that \<^verbatim>\<open>pollJobStatus\<close> sends for a job.\<close>

definition status_check :: "string \<Rightarrow> request" where
  "status_check extractId = POST webhookUrl (StatusBody ''status_check'' extractId)"

text \<open>
  A poll fails in transport when \<^verbatim>\<open>pollJobStatus\<close> throws: the fetch rejects, the
  status code is not a success, or the body cannot be read as JSON. A status is terminal
  when it is one of the three that the loop tests for.
\<close>

definition transport_failure :: "'x fetch_outcome \<Rightarrow> bool" where
  "transport_failure out =
     (case out of
        Rejected e \<Rightarrow> True
      | Responded code body \<Rightarrow> \<not> ok code \<or> (case body of Inl e \<Rightarrow> True | Inr r \<Rightarrow> False))"

definition terminal_status :: "string \<Rightarrow> bool" where
  "terminal_status st = (st = ''completed'' \<or> st = ''failed'' \<or> st = ''cancelled'')"

definition ends_polling :: "'x fetch_outcome \<Rightarrow> bool" where
  "ends_polling out =
     (transport_failure out \<or>
      (case out of
         Rejected e \<Rightarrow> False
       | Responded code body \<Rightarrow> (case body of Inl e \<Rightarrow> False | Inr r \<Rightarrow> terminal_status (status r))))"

text \<open>The state of a freshly mounted component, and sample answers of the webhook.\<close>

definition initial :: "unit component" where
  "initial =
     \<lparr>url = [], prompt = [], isLoading = False, extractedData = Data JNull, error = [],
      copied = False, jobStatus = [], requests = [], toasts = [], timeouts = []\<rparr>"

definition answer :: "string \<Rightarrow> json option \<Rightarrow> string option \<Rightarrow> ExtractResponse" where
  "answer st d i = \<lparr>success = True, data = d, status = st, expiresAt = None, extract_id = i\<rparr>"

definition net_two_rounds :: "unit network" where
  "net_two_rounds k =
     (if k < 2 then Responded 200 (Inr (answer ''processing'' None None))
      else Responded 200 (Inr (answer ''completed'' (Some (JStr (ascii ''X''))) None)))"

text \<open>The request that \<^verbatim>\<open>handleExtract\<close> sends first, and the inputs that pass its two guards.\<close>

definition submission :: "'x component \<Rightarrow> request" where
  "submission s = POST webhookUrl (ExtractBody [url s] (prompt s))"

definition valid_input :: "(string \<Rightarrow> bool) \<Rightarrow> 'x component \<Rightarrow> bool" where
  "valid_input parses s = (url s \<noteq> [] \<and> prompt s \<noteq> [] \<and> parses (url s))"

text \<open>The three errors that the component throws itself, told apart by their messages.\<close>

definition JobFailedError :: thrown where
  "JobFailedError = Error ''Extraction job failed''"

definition JobCancelledError :: thrown where
  "JobCancelledError = Error ''Extraction job was cancelled''"

definition SubmissionError :: thrown where
  "SubmissionError = Error ''Failed to start extraction job''"

text \<open>
  For the concrete runs below: one acceptor of URLs standing in for \<^verbatim>\<open>new URL\<close>, a
  form that is filled in, and one whose URL is not one.
\<close>

definition sample_parses :: "string \<Rightarrow> bool" where
  "sample_parses u = (take 8 u = ''https://'' \<and> 8 < length u)"

definition filled :: "unit component" where
  "filled = initial\<lparr>url := ''https://example.com'', prompt := ''Get article titles and authors''\<rparr>"

definition malformed :: "unit component" where
  "malformed = initial\<lparr>url := ''example dot com'', prompt := ''Get article titles and authors''\<rparr>"

text \<open>Webhooks for the concrete runs.\<close>

definition net_forever :: "unit network" where
  "net_forever k = Responded 200 (Inr (answer ''processing'' None None))"

definition net_done :: "unit network" where
  "net_done k = Responded 200 (Inr (answer ''completed'' (Some (JArr [JStr (ascii ''A''), JStr (ascii ''B'')])) None))"

definition net_refused :: "unit network" where
  "net_refused k =
     Responded 200 (Inr \<lparr>success = False, data = Some (JStr (ascii ''quota'')), status = ''completed'',
       expiresAt = None, extract_id = Some ''job-1''\<rparr>)"

definition net_no_id :: "unit network" where
  "net_no_id k = Responded 200 (Inr (answer ''processing'' (Some (JArr [JStr (ascii ''A'')])) None))"

definition net_no_id_no_data :: "unit network" where
  "net_no_id_no_data k = Responded 200 (Inr (answer ''processing'' None None))"

definition net_fails_late :: "unit network" where
  "net_fails_late k =
     (if k = 0 then Responded 200 (Inr (answer ''processing'' None (Some ''job-1'')))
      else if k < 3 then Responded 200 (Inr (answer ''processing'' None None))
      else Responded 200 (Inr (answer ''failed'' None None)))"

definition net_cancelled :: "unit network" where
  "net_cancelled k =
     (if k < 1 then Responded 200 (Inr (answer ''processing'' None None))
      else Responded 200 (Inr (answer ''cancelled'' None None)))"





section \<open>Properties\<close>

subsection \<open>The polling loop, pass by pass\<close>

lemma poll_body_requests:
  "poll_body net i s = (r, s1) \<Longrightarrow> requests s1 = requests s @ [status_check i]"
  by (auto simp: poll_body_def pollJobStatus_def fetch_def status_check_def setTimeout_def Let_def
      split: fetch_outcome.splits sum.splits if_splits)

lemma poll_body_None_iff:
  "fst (poll_body net i s) = None \<longleftrightarrow> \<not> ends_polling (net (length (requests s)))"
  by (auto simp: poll_body_def pollJobStatus_def fetch_def ends_polling_def transport_failure_def
      terminal_status_def Let_def split: fetch_outcome.splits sum.splits if_splits)

lemma poll_body_None_timeouts:
  "poll_body net i s = (None, s1) \<Longrightarrow> timeouts s1 = timeouts s @ [2000]"
  by (auto simp: poll_body_def pollJobStatus_def fetch_def setTimeout_def Let_def
      split: fetch_outcome.splits sum.splits if_splits)

lemma poll_body_Some_timeouts:
  "poll_body net i s = (Some r, s1) \<Longrightarrow> timeouts s1 = timeouts s"
  by (auto simp: poll_body_def pollJobStatus_def fetch_def setTimeout_def Let_def
      split: fetch_outcome.splits sum.splits if_splits)

lemma passes_complete:
  "poll_passes n net i s = (Some r, s1) \<Longrightarrow> waitForCompletion net i s = Some (r, s1)"
proof (induction n arbitrary: s)
  case 0
  then show ?case by simp
next
  case (Suc n)
  show ?case
  proof (cases "poll_body net i s")
    case (Pair a s2)
    with Suc show ?thesis
      by (subst waitForCompletion.simps) (auto split: option.splits)
  qed
qed

lemma complete_passes:
  assumes "waitForCompletion net i s = Some res"
  shows "\<exists>n. poll_passes n net i s = (Some (fst res), snd res)"
proof (rule waitForCompletion.raw_induct
    [where P = "\<lambda>net i s res. \<exists>n. poll_passes n net i s = (Some (fst res), snd res)", OF _ assms])
  fix f net i s res
  assume IH: "\<And>net i s res. f net i s = Some res \<Longrightarrow>
            \<exists>n. poll_passes n net i s = (Some (fst res), snd res)"
    and step: "(case poll_body net i s of (None, s1) \<Rightarrow> f net i s1
               | (Some r, s1) \<Rightarrow> Some (r, s1)) = Some res"
  show "\<exists>n. poll_passes n net i s = (Some (fst res), snd res)"
  proof (cases "poll_body net i s")
    case (Pair a s2)
    show ?thesis
    proof (cases a)
      case None
      with step Pair have "f net i s2 = Some res" by simp
      from IH [OF this] obtain n where "poll_passes n net i s2 = (Some (fst res), snd res)"
        by blast
      with None Pair have "poll_passes (Suc n) net i s = (Some (fst res), snd res)" by simp
      then show ?thesis by blast
    next
      case (Some r)
      with step Pair have "poll_passes (Suc 0) net i s = (Some (fst res), snd res)" by auto
      then show ?thesis by blast
    qed
  qed
qed

lemma poll_body_frame:
  "poll_body net i s = (r, s1) \<Longrightarrow>
     url s1 = url s \<and> prompt s1 = prompt s \<and> isLoading s1 = isLoading s
     \<and> extractedData s1 = extractedData s \<and> error s1 = error s \<and> copied s1 = copied s
     \<and> toasts s1 = toasts s"
  unfolding poll_body_def pollJobStatus_def fetch_def setTimeout_def Let_def
  by (cases "net (length (requests s))") (auto split: sum.splits if_splits)

lemma passes_add:
  "poll_passes k net i s = (None, s1) \<Longrightarrow> poll_passes (k + m) net i s = poll_passes m net i s1"
proof (induction k arbitrary: s)
  case 0
  then show ?case by simp
next
  case (Suc k)
  then show ?case
    by (cases "poll_body net i s") (auto split: option.splits)
qed

lemma passes_skip:
  "\<forall>j<k. \<not> ends_polling (net (length (requests s) + j)) \<Longrightarrow>
   \<exists>s1. poll_passes k net i s = (None, s1)
       \<and> requests s1 = requests s @ replicate k (status_check i)
       \<and> timeouts s1 = timeouts s @ replicate k 2000"
proof (induction k arbitrary: s)
  case 0
  then show ?case by simp
next
  case (Suc k)
  obtain a s2 where pb: "poll_body net i s = (a, s2)" by (cases "poll_body net i s")
  from Suc.prems have "\<not> ends_polling (net (length (requests s)))" by force
  with pb poll_body_None_iff [of net i s] have a: "a = None" by simp
  have rq: "requests s2 = requests s @ [status_check i]"
    using pb by (rule poll_body_requests)
  have tm: "timeouts s2 = timeouts s @ [2000]"
    using pb a by (simp add: poll_body_None_timeouts)
  have "\<forall>j<k. \<not> ends_polling (net (length (requests s2) + j))"
    using Suc.prems rq by auto
  from Suc.IH [OF this] obtain s1 where
    "poll_passes k net i s2 = (None, s1)"
    "requests s1 = requests s2 @ replicate k (status_check i)"
    "timeouts s1 = timeouts s2 @ replicate k 2000" by blast
  with pb a rq tm show ?case by (simp add: replicate_append_same)
qed

lemma passes_Some:
  "poll_passes n net i s = (Some r, s1) \<Longrightarrow>
   \<exists>k<n. ends_polling (net (length (requests s) + k))
       \<and> requests s1 = requests s @ replicate (Suc k) (status_check i)
       \<and> timeouts s1 = timeouts s @ replicate k 2000"
proof (induction n arbitrary: s)
  case 0
  then show ?case by simp
next
  case (Suc n)
  obtain a s2 where pb: "poll_body net i s = (a, s2)" by (cases "poll_body net i s")
  have rq: "requests s2 = requests s @ [status_check i]"
    using pb by (rule poll_body_requests)
  show ?case
  proof (cases a)
    case None
    with pb Suc.prems have "poll_passes n net i s2 = (Some r, s1)" by simp
    from Suc.IH [OF this] obtain k where k: "k < n"
      "ends_polling (net (length (requests s2) + k))"
      "requests s1 = requests s2 @ replicate (Suc k) (status_check i)"
      "timeouts s1 = timeouts s2 @ replicate k 2000" by blast
    have tm: "timeouts s2 = timeouts s @ [2000]"
      using pb None by (simp add: poll_body_None_timeouts)
    have "Suc k < Suc n" using k by simp
    moreover have "ends_polling (net (length (requests s) + Suc k))" using k rq by simp
    moreover have "requests s1 = requests s @ replicate (Suc (Suc k)) (status_check i)"
      using k rq by simp
    moreover have "timeouts s1 = timeouts s @ replicate (Suc k) 2000"
      using k tm by (simp add: replicate_append_same)
    ultimately show ?thesis by blast
  next
    case (Some r')
    with pb Suc.prems have eq: "s1 = s2" "r' = r" by simp_all
    have "ends_polling (net (length (requests s) + 0))"
      using poll_body_None_iff [of net i s] pb Some by simp
    moreover have "timeouts s1 = timeouts s @ replicate 0 2000"
      using pb Some eq by (simp add: poll_body_Some_timeouts)
    moreover have "requests s1 = requests s @ replicate (Suc 0) (status_check i)"
      using rq eq by simp
    ultimately show ?thesis by blast
  qed
qed

lemma wait_terminates:
  "ends_polling (net (length (requests s) + k)) \<Longrightarrow> \<exists>res. waitForCompletion net i s = Some res"
proof (induction k arbitrary: s)
  case 0
  obtain a s2 where pb: "poll_body net i s = (a, s2)" by (cases "poll_body net i s")
  with 0 poll_body_None_iff [of net i s] obtain r where "a = Some r" by auto
  with pb show ?case by (subst waitForCompletion.simps) simp
next
  case (Suc k)
  obtain a s2 where pb: "poll_body net i s = (a, s2)" by (cases "poll_body net i s")
  show ?case
  proof (cases a)
    case None
    have "requests s2 = requests s @ [status_check i]" using pb by (rule poll_body_requests)
    with Suc.prems have "ends_polling (net (length (requests s2) + k))" by simp
    from Suc.IH [OF this] obtain res where "waitForCompletion net i s2 = Some res" by blast
    with pb None show ?thesis by (subst waitForCompletion.simps) simp
  next
    case (Some r)
    with pb show ?thesis by (subst waitForCompletion.simps) simp
  qed
qed

lemma wait_diverges:
  assumes "\<forall>k. \<not> ends_polling (net (length (requests s) + k))"
  shows "waitForCompletion net i s = None"
proof (rule ccontr)
  assume "waitForCompletion net i s \<noteq> None"
  then obtain res where "waitForCompletion net i s = Some res" by blast
  from complete_passes [OF this] obtain n where
    "poll_passes n net i s = (Some (fst res), snd res)" by blast
  from passes_Some [OF this] assms show False by blast
qed

lemma poll_body_continue:
  assumes "net (length (requests s)) = Responded c (Inr r)" "ok c" "\<not> terminal_status (status r)"
  shows "poll_body net i s =
     (None, s\<lparr>jobStatus := status r, requests := requests s @ [status_check i],
               timeouts := timeouts s @ [2000]\<rparr>)"
  using assms
  by (simp add: poll_body_def pollJobStatus_def fetch_def setTimeout_def Let_def
      terminal_status_def status_check_def)

lemma poll_body_completed:
  assumes "net (length (requests s)) = Responded c (Inr r)" "ok c" "status r = ''completed''"
  shows "poll_body net i s =
     (Some (Inr (field_any (data r))),
      s\<lparr>jobStatus := ''completed'', requests := requests s @ [status_check i]\<rparr>)"
  using assms
  by (simp add: poll_body_def pollJobStatus_def fetch_def Let_def status_check_def)

lemma poll_body_failed:
  assumes "net (length (requests s)) = Responded c (Inr r)" "ok c" "status r = ''failed''"
  shows "poll_body net i s =
     (Some (Inl (Error ''Extraction job failed'')),
      s\<lparr>jobStatus := ''failed'', requests := requests s @ [status_check i]\<rparr>)"
  using assms
  by (simp add: poll_body_def pollJobStatus_def fetch_def Let_def status_check_def)

lemma poll_body_cancelled:
  assumes "net (length (requests s)) = Responded c (Inr r)" "ok c" "status r = ''cancelled''"
  shows "poll_body net i s =
     (Some (Inl (Error ''Extraction job was cancelled'')),
      s\<lparr>jobStatus := ''cancelled'', requests := requests s @ [status_check i]\<rparr>)"
  using assms
  by (simp add: poll_body_def pollJobStatus_def fetch_def Let_def status_check_def)

lemma passes_frame:
  "poll_passes n net i s = (r, s1) \<Longrightarrow>
     url s1 = url s \<and> prompt s1 = prompt s \<and> isLoading s1 = isLoading s
     \<and> extractedData s1 = extractedData s \<and> error s1 = error s \<and> copied s1 = copied s
     \<and> toasts s1 = toasts s"
proof (induction n arbitrary: s)
  case 0
  then show ?case by simp
next
  case (Suc n)
  obtain a s2 where pb: "poll_body net i s = (a, s2)" by (cases "poll_body net i s")
  note fr = poll_body_frame [OF pb]
  show ?case
  proof (cases a)
    case None
    with pb Suc.prems have "poll_passes n net i s2 = (r, s1)" by simp
    from Suc.IH [OF this] fr show ?thesis by simp
  next
    case (Some r')
    with pb Suc.prems have "s1 = s2" by simp
    with fr show ?thesis by simp
  qed
qed

lemma wait_frame:
  assumes "waitForCompletion net i s = Some (r, s1)"
  shows "url s1 = url s \<and> prompt s1 = prompt s \<and> isLoading s1 = isLoading s
     \<and> extractedData s1 = extractedData s \<and> error s1 = error s \<and> copied s1 = copied s
     \<and> toasts s1 = toasts s"
proof -
  from complete_passes [OF assms] obtain n where "poll_passes n net i s = (Some r, s1)" by auto
  then show ?thesis by (rule passes_frame)
qed

lemma handle_invalid:
  assumes "\<not> valid_input parses s"
  shows "handleExtract net parses s =
     Some (s\<lparr>toasts := toasts s @
        [if url s = [] \<or> prompt s = [] then missing_information else invalid_url]\<rparr>)"
  using assms by (auto simp: handleExtract_def valid_input_def toast_def)

lemma handle_answered:
  assumes "valid_input parses s"
    and "net (length (requests s)) = Responded c (Inr r)" "ok c"
  shows "handleExtract net parses s =
     (let s1 = s\<lparr>isLoading := True, error := [], extractedData := Data JNull, jobStatus := [],
                  requests := requests s @ [submission s]\<rparr> in
      if \<not> success r then
        Some (s1\<lparr>isLoading := False,
                 error := ''Failed to extract data: Failed to start extraction job'',
                 toasts := toasts s @ [extraction_failed ''Failed to start extraction job'']\<rparr>)
      else if status r = ''completed'' then
        Some (s1\<lparr>isLoading := False, extractedData := field_any (data r),
                 toasts := toasts s @ [extraction_complete]\<rparr>)
      else if extract_id r = None \<or> extract_id r = Some [] then
        Some (s1\<lparr>isLoading := False, extractedData := js_or (field_any (data r)) (Whole r),
                 toasts := toasts s @ [extraction_complete]\<rparr>)
      else
        (case waitForCompletion net (the (extract_id r)) s1 of
           None \<Rightarrow> None
         | Some (Inl e, s2) \<Rightarrow> Some (extract_finally (extract_catch e s2))
         | Some (Inr finalData, s2) \<Rightarrow>
             Some (s2\<lparr>isLoading := False, extractedData := finalData, jobStatus := [],
                      toasts := toasts s @ [extraction_complete]\<rparr>)))"
proof -
  show ?thesis
    using assms
    apply (simp add: handleExtract_def valid_input_def extract_try_def fetch_def Let_def
        submission_def)
    apply (auto simp: extract_finally_def extract_catch_def errorMessage_def toast_def fallback_def Let_def
        split: option.splits sum.splits prod.splits dest: wait_frame)
    done
qed

lemma handle_thrown:
  assumes "valid_input parses s"
    and "net (length (requests s)) = Rejected e \<and> t = e
       \<or> (\<exists>c b. net (length (requests s)) = Responded c b \<and> \<not> ok c \<and> t = http_error c)
       \<or> (\<exists>c. net (length (requests s)) = Responded c (Inl e) \<and> ok c \<and> t = e)"
  shows "handleExtract net parses s =
     Some (extract_finally (extract_catch t
       (s\<lparr>isLoading := True, error := [], extractedData := Data JNull, jobStatus := [],
          requests := requests s @ [submission s]\<rparr>)))"
  using assms
  by (auto simp: handleExtract_def valid_input_def extract_try_def fetch_def Let_def
        submission_def)

lemma catch_finally:
  "extract_finally (extract_catch t s) =
     s\<lparr>isLoading := False, error := ''Failed to extract data: '' @ errorMessage t, jobStatus := [],
       toasts := toasts s @ [extraction_failed (errorMessage t)]\<rparr>"
  by (simp add: extract_finally_def extract_catch_def toast_def)

lemma handle_outcome:
  assumes v: "valid_input parses s" and h: "handleExtract net parses s = Some s'"
  shows "\<not> isLoading s' \<and> jobStatus s' = [] \<and>
     (error s' = [] \<and> toasts s' = toasts s @ [extraction_complete]
      \<or> (\<exists>m. error s' = ''Failed to extract data: '' @ m \<and> extractedData s' = Data JNull
            \<and> toasts s' = toasts s @ [extraction_failed m]))"
proof -
  let ?s1 = "s\<lparr>isLoading := True, error := [], extractedData := Data JNull, jobStatus := [],
          requests := requests s @ [submission s]\<rparr>"
  have thrown: "?thesis" if "handleExtract net parses s = Some (extract_finally (extract_catch t ?s1))" for t
  proof -
    from that h have "s' = extract_finally (extract_catch t ?s1)" by simp
    then show ?thesis by (simp add: catch_finally)
  qed
  show ?thesis
  proof (cases "net (length (requests s))")
    case (Rejected e)
    with handle_thrown [OF v, of net e e] show ?thesis by (intro thrown) simp
  next
    case (Responded c b)
    show ?thesis
    proof (cases "ok c")
      case False
      with Responded handle_thrown [OF v, of net undefined "http_error c"] show ?thesis
        by (intro thrown) simp
    next
      case True
      show ?thesis
      proof (cases b)
        case (Inl e)
        with True Responded handle_thrown [OF v, of net e e] show ?thesis
          by (intro thrown) simp
      next
        case (Inr r)
        note ha = handle_answered [of parses s net c r, unfolded Let_def, OF v]
        show ?thesis
        proof (cases "\<not> success r \<or> status r = ''completed'' \<or> extract_id r = None \<or> extract_id r = Some []")
          case True
          with ha Responded Inr \<open>ok c\<close> h show ?thesis
            by (auto split: if_splits)
        next
          case False
          with ha Responded Inr \<open>ok c\<close> h
          obtain res s2 where w: "waitForCompletion net (the (extract_id r)) ?s1 = Some (res, s2)"
            and s': "s' = (case res of Inl e \<Rightarrow> extract_finally (extract_catch e s2)
                       | Inr finalData \<Rightarrow> s2\<lparr>isLoading := False, extractedData := finalData,
                            jobStatus := [], toasts := toasts s @ [extraction_complete]\<rparr>)"
            by (auto split: option.splits sum.splits)
          from wait_frame [OF w] have fr: "extractedData s2 = Data JNull" "error s2 = []"
            "toasts s2 = toasts s" by simp_all
          show ?thesis
            using s' fr by (cases res) (simp_all add: catch_finally)
        qed
      qed
    qed
  qed
qed

lemma wait_exits_at:
  assumes skip: "\<forall>j<k. \<not> ends_polling (net (length (requests s) + j))"
    and pb: "\<And>s1. length (requests s1) = length (requests s) + k \<Longrightarrow>
               fst (poll_body net i s1) = Some r"
  shows "\<exists>s2. waitForCompletion net i s = Some (r, s2)
           \<and> requests s2 = requests s @ replicate (Suc k) (status_check i)
           \<and> timeouts s2 = timeouts s @ replicate k 2000"
proof -
  from passes_skip [OF skip, of i] obtain s1 where s1: "poll_passes k net i s = (None, s1)"
    "requests s1 = requests s @ replicate k (status_check i)"
    "timeouts s1 = timeouts s @ replicate k 2000" by blast
  obtain a s2 where b: "poll_body net i s1 = (a, s2)" by (cases "poll_body net i s1")
  from pb [of s1] s1(2) b have a: "a = Some r" by simp
  have "poll_passes (k + 1) net i s = poll_passes 1 net i s1"
    using s1(1) by (rule passes_add)
  with b a have "poll_passes (k + 1) net i s = (Some r, s2)" by simp
  then have "waitForCompletion net i s = Some (r, s2)" by (rule passes_complete)
  moreover have "requests s2 = requests s @ replicate (Suc k) (status_check i)"
    using poll_body_requests [OF b] s1(2) by (simp add: replicate_append_same)
  moreover have "timeouts s2 = timeouts s @ replicate k 2000"
    using poll_body_Some_timeouts [of net i s1 r s2] b a s1(3) by simp
  ultimately show ?thesis by blast
qed

subsection \<open>The answer behind a result\<close>





lemma truthy_field_any:
  "truthy (field_any d) = (case d of None \<Rightarrow> False | Some j \<Rightarrow> truthy_json j)"
  by (cases d) simp_all


subsection \<open>Polling to completion\<close>

text \<open>
  C1. When the webhook answers the first two status checks with \<open>processing\<close> and the
  third with \<open>completed\<close> and data \<open>X\<close>, \<^verbatim>\<open>waitForCompletion\<close> returns exactly \<open>X\<close>,
  having sent exactly three status checks, in order, all for the same job; it has waited
  2000 ms twice, and the last status seen is the only other thing it changed.
\<close>

theorem three_polls_return_data:
  assumes "net (length (requests s)) = Responded c1 (Inr r1)" "ok c1" "status r1 = ''processing''"
    and "net (length (requests s) + 1) = Responded c2 (Inr r2)" "ok c2" "status r2 = ''processing''"
    and "net (length (requests s) + 2) = Responded c3 (Inr r3)" "ok c3" "status r3 = ''completed''"
    and "data r3 = Some X"
  shows "waitForCompletion net extractId s =
     Some (Inr (Data X),
       s\<lparr>jobStatus := ''completed'',
          requests := requests s @ [status_check extractId, status_check extractId, status_check extractId],
          timeouts := timeouts s @ [2000, 2000]\<rparr>)"
proof -
  let ?q = "status_check extractId"
  let ?s1 = "s\<lparr>jobStatus := status r1, requests := requests s @ [?q],
               timeouts := timeouts s @ [2000]\<rparr>"
  let ?s2 = "?s1\<lparr>jobStatus := status r2, requests := requests ?s1 @ [?q],
               timeouts := timeouts ?s1 @ [2000]\<rparr>"
  have nt: "\<not> terminal_status ''processing''" by (simp add: terminal_status_def)
  have p1: "poll_body net extractId s = (None, ?s1)"
    using assms(1-3) nt by (simp add: poll_body_continue)
  have "net (length (requests ?s1)) = Responded c2 (Inr r2)" using assms(4) by simp
  then have p2: "poll_body net extractId ?s1 = (None, ?s2)"
    using assms(5,6) nt by (simp add: poll_body_continue)
  have "net (length (requests ?s2)) = Responded c3 (Inr r3)" using assms(7) by simp
  then have p3: "poll_body net extractId ?s2 =
      (Some (Inr (Data X)), ?s2\<lparr>jobStatus := ''completed'', requests := requests ?s2 @ [?q]\<rparr>)"
    using assms(8-10) poll_body_completed [of net ?s2 c3 r3 extractId] by simp
  have "waitForCompletion net extractId s = waitForCompletion net extractId ?s1"
    using p1 by (subst waitForCompletion.simps) simp
  also have "\<dots> = waitForCompletion net extractId ?s2"
    using p2 by (subst waitForCompletion.simps) simp
  also have "\<dots> = Some (Inr (Data X), ?s2\<lparr>jobStatus := ''completed'', requests := requests ?s2 @ [?q]\<rparr>)"
    using p3 by (subst waitForCompletion.simps) simp
  finally show ?thesis by simp
qed

theorem three_polls_return_data_witness:
  "waitForCompletion net_two_rounds ''job-1'' initial =
     Some (Inr (Data (JStr (ascii ''X''))),
       initial\<lparr>jobStatus := ''completed'',
          requests := requests initial @ [status_check ''job-1'', status_check ''job-1'', status_check ''job-1''],
          timeouts := timeouts initial @ [2000, 2000]\<rparr>)"
  by (rule three_polls_return_data [where ?c1.0 = 200 and ?c2.0 = 200 and ?c3.0 = 200
        and ?r1.0 = "answer ''processing'' None None" and ?r2.0 = "answer ''processing'' None None"
        and ?r3.0 = "answer ''completed'' (Some (JStr (ascii ''X''))) None"])
     (simp_all add: net_two_rounds_def initial_def answer_def ok_def)

subsection \<open>Validation before the network\<close>

text \<open>
  C2. When the URL is empty, the prompt is empty or the URL does not parse,
  \<^verbatim>\<open>handleExtract\<close> only shows a destructive toast (\<open>Missing Information\<close> or
  \<open>Invalid URL\<close>) and returns: no request is sent, whatever the webhook would answer,
  and nothing else of the state changes.
\<close>

theorem invalid_input_rejected:
  assumes "url s = [] \<or> prompt s = [] \<or> \<not> parses (url s)"
  shows "handleExtract net parses s =
           Some (s\<lparr>toasts := toasts s @
              [if url s = [] \<or> prompt s = [] then missing_information else invalid_url]\<rparr>)
       \<and> (\<forall>s'. handleExtract net parses s = Some s' \<longrightarrow>
             requests s' = requests s \<and> variant (last (toasts s')) = Destructive)"
proof -
  from assms have "\<not> valid_input parses s" by (auto simp: valid_input_def)
  from handle_invalid [OF this, of net] show ?thesis
    by (simp add: missing_information_def invalid_url_def)
qed

theorem invalid_input_rejected_witness:
  "handleExtract net_done sample_parses malformed = Some (malformed\<lparr>toasts := [invalid_url]\<rparr>)
   \<and> requests (malformed\<lparr>toasts := [invalid_url]\<rparr>) = []"
  using invalid_input_rejected [of malformed sample_parses net_done]
  by (simp add: malformed_def initial_def sample_parses_def)

subsection \<open>The answer to the submission\<close>

text \<open>
  C3. When the answer to the submission has \<^verbatim>\<open>success\<close> true and status
  \<open>completed\<close>, its \<^verbatim>\<open>data\<close> becomes the result and the submission is the only
  request sent: no status check follows.
\<close>

theorem completed_at_once:
  assumes "valid_input parses s"
    and "net (length (requests s)) = Responded c (Inr r)" "ok c"
    and "success r" "status r = ''completed''"
  shows "handleExtract net parses s =
     Some (s\<lparr>isLoading := False, error := [], extractedData := field_any (data r), jobStatus := [],
             requests := requests s @ [submission s], toasts := toasts s @ [extraction_complete]\<rparr>)"
  using handle_answered [of parses s net c r] assms by (simp add: Let_def)

theorem completed_at_once_witness:
  "handleExtract net_done sample_parses filled =
     Some (filled\<lparr>isLoading := False, error := [],
             extractedData := Data (JArr [JStr (ascii ''A''), JStr (ascii ''B'')]), jobStatus := [],
             requests := [submission filled], toasts := [extraction_complete]\<rparr>)"
  using completed_at_once [of sample_parses filled net_done 200
      "answer ''completed'' (Some (JArr [JStr (ascii ''A''), JStr (ascii ''B'')])) None"]
  by (simp add: valid_input_def filled_def initial_def sample_parses_def net_done_def ok_def answer_def)

text \<open>
  C7. When the answer to the submission has \<^verbatim>\<open>success\<close> false, the run ends with
  the error \<open>Failed to start extraction job\<close>, whatever status, data or job id the answer
  carries; the submission is the only request sent and the result stays \<^verbatim>\<open>null\<close>.
\<close>

theorem refused_submission_fails:
  assumes "valid_input parses s"
    and "net (length (requests s)) = Responded c (Inr r)" "ok c"
    and "\<not> success r"
  shows "handleExtract net parses s =
     Some (s\<lparr>isLoading := False, error := ''Failed to extract data: '' @ errorMessage SubmissionError,
             extractedData := Data JNull, jobStatus := [],
             requests := requests s @ [submission s],
             toasts := toasts s @ [extraction_failed (errorMessage SubmissionError)]\<rparr>)"
  using handle_answered [of parses s net c r] assms
  by (simp add: Let_def SubmissionError_def errorMessage_def)

theorem refused_submission_fails_witness:
  "handleExtract net_refused sample_parses filled =
     Some (filled\<lparr>isLoading := False, error := ''Failed to extract data: Failed to start extraction job'',
             extractedData := Data JNull, jobStatus := [],
             requests := [submission filled],
             toasts := [extraction_failed ''Failed to start extraction job'']\<rparr>)"
  using refused_submission_fails [of sample_parses filled net_refused 200
      "\<lparr>success = False, data = Some (JStr (ascii ''quota'')), status = ''completed'',
         expiresAt = None, extract_id = Some ''job-1''\<rparr>"]
  by (simp add: valid_input_def filled_def initial_def sample_parses_def net_refused_def ok_def
      SubmissionError_def errorMessage_def)

text \<open>
  C5, as the code has it. When the answer to the submission has \<^verbatim>\<open>success\<close> true, a
  status other than \<open>completed\<close> and no job id, the result is the \<^verbatim>\<open>data\<close> of the
  answer when that is truthy, and the whole answer otherwise; no status check is sent.
\<close>

theorem fallback_result:
  assumes "valid_input parses s"
    and "net (length (requests s)) = Responded c (Inr r)" "ok c"
    and "success r" "status r \<noteq> ''completed''" "extract_id r = None"
  shows "handleExtract net parses s =
     Some (s\<lparr>isLoading := False, error := [],
             extractedData := (if truthy (field_any (data r)) then field_any (data r) else Whole r),
             jobStatus := [],
             requests := requests s @ [submission s], toasts := toasts s @ [extraction_complete]\<rparr>)"
  using handle_answered [of parses s net c r] assms
  by (simp add: Let_def js_or_def truthy_field_any)

theorem fallback_result_witness:
  "handleExtract net_no_id_no_data sample_parses filled =
     Some (filled\<lparr>isLoading := False, error := [],
             extractedData := Whole (answer ''processing'' None None),
             jobStatus := [],
             requests := [submission filled], toasts := [extraction_complete]\<rparr>)"
  using fallback_result [of sample_parses filled net_no_id_no_data 200 "answer ''processing'' None None"]
  by (simp add: valid_input_def filled_def initial_def sample_parses_def net_no_id_no_data_def ok_def
      answer_def)

text \<open>
  C5 as stated fails: an answer with status \<open>processing\<close>, no job id and a non-empty
  array as data leaves that array, not the answer itself, as the result.
\<close>

theorem fallback_whole_response_counterexample:
  "success (answer ''processing'' (Some (JArr [JStr (ascii ''A'')])) None)
   \<and> status (answer ''processing'' (Some (JArr [JStr (ascii ''A'')])) None) \<noteq> ''completed''
   \<and> extract_id (answer ''processing'' (Some (JArr [JStr (ascii ''A'')])) None) = None
   \<and> net_no_id (length (requests filled)) = Responded 200 (Inr (answer ''processing'' (Some (JArr [JStr (ascii ''A'')])) None))
   \<and> map_option extractedData (handleExtract net_no_id sample_parses filled)
       = Some (Data (JArr [JStr (ascii ''A'')]))
   \<and> map_option extractedData (handleExtract net_no_id sample_parses filled)
       \<noteq> Some (Whole (answer ''processing'' (Some (JArr [JStr (ascii ''A'')])) None))"
proof -
  have "valid_input sample_parses filled"
    by (simp add: valid_input_def filled_def initial_def sample_parses_def)
  with handle_answered [of sample_parses filled net_no_id 200
      "answer ''processing'' (Some (JArr [JStr (ascii ''A'')])) None"]
  show ?thesis
    by (simp add: net_no_id_def ok_def answer_def Let_def js_or_def)
qed

subsection \<open>Failed and cancelled jobs\<close>

text \<open>
  C4. When a status check, the first or a later one, is answered with status \<open>failed\<close>,
  \<^verbatim>\<open>waitForCompletion\<close> throws the error of a failed job; when it is answered with
  \<open>cancelled\<close>, the error of a cancelled job. In both cases that status check is the
  last request sent.
\<close>

theorem failed_or_cancelled_stops:
  assumes "\<forall>j<k. \<not> ends_polling (net (length (requests s) + j))"
    and "net (length (requests s) + k) = Responded c (Inr r)" "ok c"
    and "status r = ''failed'' \<or> status r = ''cancelled''"
  shows "\<exists>s2. waitForCompletion net extractId s =
            Some (Inl (if status r = ''failed'' then JobFailedError else JobCancelledError), s2)
           \<and> requests s2 = requests s @ replicate (Suc k) (status_check extractId)"
proof -
  let ?e = "if status r = ''failed'' then JobFailedError else JobCancelledError"
  have "fst (poll_body net extractId s1) = Some (Inl ?e)"
    if "length (requests s1) = length (requests s) + k" for s1
  proof -
    from that assms(2) have n: "net (length (requests s1)) = Responded c (Inr r)" by simp
    from assms(4) show ?thesis
    proof
      assume "status r = ''failed''"
      with poll_body_failed [of net s1 c r extractId] n assms(3) show ?thesis by (simp add: JobFailedError_def)
    next
      assume "status r = ''cancelled''"
      with poll_body_cancelled [of net s1 c r extractId] n assms(3) show ?thesis by (simp add: JobCancelledError_def)
    qed
  qed
  from wait_exits_at [OF assms(1) this] show ?thesis by blast
qed

theorem failed_or_cancelled_stops_witness:
  "\<exists>s2. waitForCompletion net_cancelled ''job-1'' initial = Some (Inl JobCancelledError, s2)
      \<and> requests s2 = [status_check ''job-1'', status_check ''job-1'']"
  using failed_or_cancelled_stops [of 1 net_cancelled initial 200 "answer ''cancelled'' None None" "''job-1''"]
  by (simp add: net_cancelled_def initial_def ok_def answer_def ends_polling_def
      transport_failure_def terminal_status_def)

subsection \<open>Termination of the polling loop\<close>

text \<open>
  C6. \<^verbatim>\<open>waitForCompletion\<close> returns or throws exactly when some status check is
  answered with a terminal status or fails in transport. When none ever is, it never
  returns, and after any number \<open>n\<close> of passes it has sent \<open>n\<close> status checks and waited
  2000 ms \<open>n\<close> times: there is no bound on the number of polls. When it does return, it
  has waited 2000 ms between any two consecutive polls and at no other time.
\<close>

theorem polling_ends_iff_terminal:
  "((\<exists>res. waitForCompletion net extractId s = Some res)
      \<longleftrightarrow> (\<exists>k. ends_polling (net (length (requests s) + k))))
   \<and> ((\<forall>k. \<not> ends_polling (net (length (requests s) + k))) \<longrightarrow>
        waitForCompletion net extractId s = None
        \<and> (\<forall>n. \<exists>s1. poll_passes n net extractId s = (None, s1)
              \<and> requests s1 = requests s @ replicate n (status_check extractId)
              \<and> timeouts s1 = timeouts s @ replicate n 2000))
   \<and> (\<forall>r s2. waitForCompletion net extractId s = Some (r, s2) \<longrightarrow>
        (\<exists>k. requests s2 = requests s @ replicate (Suc k) (status_check extractId)
            \<and> timeouts s2 = timeouts s @ replicate k 2000))"
proof (intro conjI allI impI)
  show "(\<exists>res. waitForCompletion net extractId s = Some res)
      \<longleftrightarrow> (\<exists>k. ends_polling (net (length (requests s) + k)))"
  proof
    assume "\<exists>res. waitForCompletion net extractId s = Some res"
    then obtain res where "waitForCompletion net extractId s = Some res" ..
    from complete_passes [OF this] obtain n where
      "poll_passes n net extractId s = (Some (fst res), snd res)" ..
    from passes_Some [OF this] show "\<exists>k. ends_polling (net (length (requests s) + k))" by blast
  next
    assume "\<exists>k. ends_polling (net (length (requests s) + k))"
    then obtain k where "ends_polling (net (length (requests s) + k))" ..
    then show "\<exists>res. waitForCompletion net extractId s = Some res" by (rule wait_terminates)
  qed
next
  assume "\<forall>k. \<not> ends_polling (net (length (requests s) + k))"
  then show "waitForCompletion net extractId s = None" by (rule wait_diverges)
next
  fix n
  assume "\<forall>k. \<not> ends_polling (net (length (requests s) + k))"
  then have "\<forall>j<n. \<not> ends_polling (net (length (requests s) + j))" by simp
  then show "\<exists>s1. poll_passes n net extractId s = (None, s1)
              \<and> requests s1 = requests s @ replicate n (status_check extractId)
              \<and> timeouts s1 = timeouts s @ replicate n 2000" by (rule passes_skip)
next
  fix r s2
  assume "waitForCompletion net extractId s = Some (r, s2)"
  from complete_passes [OF this] obtain n where
    "poll_passes n net extractId s = (Some r, s2)" by auto
  from passes_Some [OF this]
  show "\<exists>k. requests s2 = requests s @ replicate (Suc k) (status_check extractId)
            \<and> timeouts s2 = timeouts s @ replicate k 2000" by blast
qed

theorem polling_ends_iff_terminal_witness:
  "waitForCompletion net_forever ''job-1'' initial = None
   \<and> (\<exists>res. waitForCompletion net_two_rounds ''job-1'' initial = Some res)"
proof
  have "\<forall>k. \<not> ends_polling (net_forever (length (requests initial) + k))"
    by (simp add: net_forever_def ends_polling_def transport_failure_def terminal_status_def
        answer_def ok_def)
  with polling_ends_iff_terminal [of net_forever "''job-1''" initial]
  show "waitForCompletion net_forever ''job-1'' initial = None" by blast
next
  have "ends_polling (net_two_rounds (length (requests initial) + 2))"
    by (simp add: net_two_rounds_def ends_polling_def transport_failure_def terminal_status_def
        answer_def ok_def)
  with polling_ends_iff_terminal [of net_two_rounds "''job-1''" initial]
  show "\<exists>res. waitForCompletion net_two_rounds ''job-1'' initial = Some res" by blast
qed

subsection \<open>The state after a run\<close>

text \<open>
  C9. After every run of \<^verbatim>\<open>handleExtract\<close> that gets past the two guards and comes to
  an end, however it ends, \<^verbatim>\<open>isLoading\<close> is false and \<^verbatim>\<open>jobStatus\<close> is empty. The same
  holds for a run stopped by a guard when the component was idle before.
\<close>

theorem loading_cleared_after_run:
  assumes "handleExtract net parses s = Some s'"
    and "valid_input parses s \<or> (\<not> isLoading s \<and> jobStatus s = [])"
  shows "\<not> isLoading s' \<and> jobStatus s' = []"
proof (cases "valid_input parses s")
  case True
  from handle_outcome [OF True assms(1)] show ?thesis by simp
next
  case False
  with assms(2) have idle: "\<not> isLoading s" "jobStatus s = []" by simp_all
  from handle_invalid [OF False, of net] assms(1) idle show ?thesis by auto
qed

theorem loading_cleared_after_run_witness:
  "\<exists>s'. handleExtract net_fails_late sample_parses filled = Some s'
      \<and> \<not> isLoading s' \<and> jobStatus s' = []"
proof -
  let ?s1 = "filled\<lparr>isLoading := True, error := [], extractedData := Data JNull,
      jobStatus := [], requests := requests filled @ [submission filled]\<rparr>"
  have v: "valid_input sample_parses filled"
    by (simp add: valid_input_def filled_def initial_def sample_parses_def)
  have "ends_polling (net_fails_late (length (requests ?s1) + 2))"
    by (simp add: net_fails_late_def ends_polling_def transport_failure_def terminal_status_def
        answer_def ok_def filled_def initial_def)
  with wait_terminates [of net_fails_late ?s1 2 "''job-1''"] obtain res where
    "waitForCompletion net_fails_late ''job-1'' ?s1 = Some res" by blast
  with handle_answered [of sample_parses filled net_fails_late 200 "answer ''processing'' None (Some ''job-1'')"] v
  obtain s' where h: "handleExtract net_fails_late sample_parses filled = Some s'"
    by (cases res; cases "fst res")
       (auto simp: net_fails_late_def ok_def answer_def Let_def filled_def initial_def)
  with loading_cleared_after_run [of net_fails_late sample_parses filled s'] v show ?thesis by blast
qed

text \<open>
  C10. When a run of \<^verbatim>\<open>handleExtract\<close> past the guards ends with an error message,
  \<^verbatim>\<open>extractedData\<close> is \<^verbatim>\<open>null\<close>: an error message and a result of the same attempt
  are never both present.
\<close>

theorem error_leaves_no_data:
  assumes "handleExtract net parses s = Some s'" and "valid_input parses s"
    and "error s' \<noteq> []"
  shows "extractedData s' = Data JNull"
  using handle_outcome [OF assms(2,1)] assms(3) by auto

theorem error_leaves_no_data_witness:
  "\<exists>s'. handleExtract net_fails_late sample_parses filled = Some s'
      \<and> valid_input sample_parses filled
      \<and> error s' = ''Failed to extract data: Extraction job failed''
      \<and> extractedData s' = Data JNull"
proof -
  let ?s1 = "filled\<lparr>isLoading := True, error := [], extractedData := Data JNull,
      jobStatus := [], requests := requests filled @ [submission filled]\<rparr>"
  let ?r = "answer ''failed'' None None"
  have v: "valid_input sample_parses filled"
    by (simp add: valid_input_def filled_def initial_def sample_parses_def)
  have skip: "\<forall>j<2. \<not> ends_polling (net_fails_late (length (requests ?s1) + j))"
    by (simp add: net_fails_late_def ends_polling_def transport_failure_def terminal_status_def
        answer_def ok_def filled_def initial_def)
  have "fst (poll_body net_fails_late ''job-1'' s1) = Some (Inl JobFailedError)"
    if "length (requests s1) = length (requests ?s1) + 2" for s1
  proof -
    from that have "net_fails_late (length (requests s1)) = Responded 200 (Inr ?r)"
      by (simp add: net_fails_late_def filled_def initial_def)
    with poll_body_failed [of net_fails_late s1 200 ?r "''job-1''"] show ?thesis
      by (simp add: ok_def answer_def JobFailedError_def)
  qed
  with wait_exits_at [of 2 net_fails_late ?s1 "''job-1''" "Inl JobFailedError"] skip
  obtain s2 where w: "waitForCompletion net_fails_late ''job-1'' ?s1 = Some (Inl JobFailedError, s2)"
    by blast
  from wait_frame [OF w] have fr: "error s2 = []" "extractedData s2 = Data JNull" by simp_all
  let ?s' = "extract_finally (extract_catch JobFailedError s2)"
  have h: "handleExtract net_fails_late sample_parses filled = Some ?s'"
    using handle_answered [of sample_parses filled net_fails_late 200
        "answer ''processing'' None (Some ''job-1'')"] v w
    by (simp add: net_fails_late_def ok_def answer_def Let_def filled_def initial_def)
  have e: "error ?s' = ''Failed to extract data: Extraction job failed''"
    by (simp add: catch_finally JobFailedError_def errorMessage_def)
  then have "error ?s' \<noteq> []" by simp
  with error_leaves_no_data [OF h v] have "extractedData ?s' = Data JNull" by blast
  with h v e show ?thesis by blast
qed

subsection \<open>The rendered result\<close>




end
